theory Spec2Isabelle
  imports Complex_Main "HOL-Library.List_Lexorder" "HOL-Library.Char_ord"
begin

section \<open>Python primitives\<close>

text \<open>
  Times in seconds are Python floats in the source. They are read here as the rational
  numbers they denote: \<open>//\<close> and \<open>%\<close> are exact on floats, and the one rounded operation
  of the timestamp code, the product \<open>(seconds % 1) * 1000\<close>, is taken exactly.
  Strings are ASCII texts.
\<close>

definition py_floordiv :: "rat \<Rightarrow> rat \<Rightarrow> rat" where
  "py_floordiv x y = of_int \<lfloor>x / y\<rfloor>"

definition py_mod :: "rat \<Rightarrow> rat \<Rightarrow> rat" where
  "py_mod x y = x - y * of_int \<lfloor>x / y\<rfloor>"

text \<open>\<open>int(x)\<close> truncates towards zero.\<close>

definition py_int :: "rat \<Rightarrow> int" where
  "py_int x = (if x < 0 then \<lceil>x\<rceil> else \<lfloor>x\<rfloor>)"


text \<open>\<open>str(n)\<close> for a natural number.\<close>

fun str_nat :: "nat \<Rightarrow> string" where
  "str_nat n =
     (if n < 10 then [''0123456789'' ! n]
      else str_nat (n div 10) @ [''0123456789'' ! (n mod 10)])"

declare str_nat.simps [simp del]

text \<open>
  The format specification \<open>{i:0Wd}\<close>: at least \<open>W\<close> characters, padded with zeros
  after the sign.
\<close>

definition format_0d :: "nat \<Rightarrow> int \<Rightarrow> string" where
  "format_0d w i =
     (if i < 0
      then CHR ''-'' # replicate (w - 1 - length (str_nat (nat (- i)))) (CHR ''0'')
             @ str_nat (nat (- i))
      else replicate (w - length (str_nat (nat i))) (CHR ''0'') @ str_nat (nat i))"





text \<open>\<open>sep.join(xs)\<close>\<close>

fun py_join :: "string \<Rightarrow> string list \<Rightarrow> string" where
  "py_join sep [] = []"
| "py_join sep [x] = x"
| "py_join sep (x # y # ys) = x @ sep @ py_join sep (y # ys)"




section \<open>Output formatter (worker/output\_formatter.py)\<close>

record Segment =
  seg_start :: rat
  seg_end :: rat
  seg_text :: string



text \<open>\<open>OutputFormatter._format_srt_time\<close> and \<open>OutputFormatter._format_vtt_time\<close>\<close>

definition format_srt_time :: "rat \<Rightarrow> string" where
  "format_srt_time seconds =
     (let hours = py_int (py_floordiv seconds 3600);
          minutes = py_int (py_floordiv (py_mod seconds 3600) 60);
          secs = py_int (py_mod seconds 60);
          millis = py_int (py_mod seconds 1 * 1000)
      in format_0d 2 hours @ '':'' @ format_0d 2 minutes @ '':'' @ format_0d 2 secs
           @ '','' @ format_0d 3 millis)"










section \<open>Export helpers (api/routes/export.py)\<close>

text \<open>The API's \<open>TranscriptSegment\<close> model (api/models.py).\<close>

record TranscriptSegment =
  ts_id :: int
  ts_start :: rat
  ts_end :: rat
  ts_text :: string

definition format_timestamp_srt :: "rat \<Rightarrow> string" where
  "format_timestamp_srt seconds =
     (let hours = py_int (py_floordiv seconds 3600);
          minutes = py_int (py_floordiv (py_mod seconds 3600) 60);
          secs = py_int (py_mod seconds 60);
          millis = py_int (py_mod seconds 1 * 1000)
      in format_0d 2 hours @ '':'' @ format_0d 2 minutes @ '':'' @ format_0d 2 secs
           @ '','' @ format_0d 3 millis)"

definition format_timestamp_vtt :: "rat \<Rightarrow> string" where
  "format_timestamp_vtt seconds =
     (let hours = py_int (py_floordiv seconds 3600);
          minutes = py_int (py_floordiv (py_mod seconds 3600) 60);
          secs = py_int (py_mod seconds 60);
          millis = py_int (py_mod seconds 1 * 1000)
      in format_0d 2 hours @ '':'' @ format_0d 2 minutes @ '':'' @ format_0d 2 secs
           @ ''.'' @ format_0d 3 millis)"

fun segments_to_srt_lines :: "(nat \<times> TranscriptSegment) list \<Rightarrow> string list" where
  "segments_to_srt_lines [] = []"
| "segments_to_srt_lines ((i, seg) # rest) =
     [str_nat i,
      format_timestamp_srt (ts_start seg) @ '' --> '' @ format_timestamp_srt (ts_end seg),
      ts_text seg,
      []] @ segments_to_srt_lines rest"

definition segments_to_srt :: "TranscriptSegment list \<Rightarrow> string" where
  "segments_to_srt segs = py_join ''\<newline>'' (segments_to_srt_lines (enumerate 1 segs))"

fun segments_to_vtt_lines :: "(nat \<times> TranscriptSegment) list \<Rightarrow> string list" where
  "segments_to_vtt_lines [] = []"
| "segments_to_vtt_lines ((i, seg) # rest) =
     [str_nat i,
      format_timestamp_vtt (ts_start seg) @ '' --> '' @ format_timestamp_vtt (ts_end seg),
      ts_text seg,
      []] @ segments_to_vtt_lines rest"

definition segments_to_vtt :: "TranscriptSegment list \<Rightarrow> string" where
  "segments_to_vtt segs =
     py_join ''\<newline>'' ([''WEBVTT'', []] @ segments_to_vtt_lines (enumerate 1 segs))"


section \<open>Timestamp parser (api/routes/youtube.py)\<close>








section \<open>Job and transcript tables (api/database.py, api/models.py)\<close>

datatype JobStatus = QUEUED | RUNNING | DONE | FAILED

fun status_value :: "JobStatus \<Rightarrow> string" where
  "status_value QUEUED = ''queued''"
| "status_value RUNNING = ''running''"
| "status_value DONE = ''done''"
| "status_value FAILED = ''failed''"

datatype ExportFormat = TXT | SRT | VTT | JSON

text \<open>The members of the enumeration \<open>ModelSize\<close>, which the API accepts for a job.\<close>

definition ModelSize :: "string list" where
  "ModelSize = [''tiny'', ''base'', ''small'', ''medium'', ''large'']"

text \<open>A row of the table \<open>jobs\<close>; \<open>created_at\<close> is a text column, compared as text.\<close>

record JobRow =
  job_id :: string
  job_type :: string
  source_url :: "string option"
  original_filename :: "string option"
  stored_filename :: "string option"
  status :: JobStatus
  created_at :: string
  updated_at :: string
  model :: string
  language :: string
  error_message :: "string option"

text \<open>
  A row of the table \<open>transcripts\<close>. The column \<open>edited_segments_json\<close> holds the JSON
  text of a segment list; the row holds the list that \<open>json.loads\<close> reads from it.
\<close>

record TranscriptRow =
  tr_job_id :: string
  segments_json_path :: "string option"
  plain_text_path :: "string option"
  srt_path :: "string option"
  vtt_path :: "string option"
  edited_text :: "string option"
  edited_segments_json :: "TranscriptSegment list option"
  last_edited_at :: "string option"

text \<open>
  What the API reads: the two tables, and for each job the results of
  \<open>load_transcript_segments\<close> and \<open>load_transcript_text\<close> (the contents of the stored
  files, empty when a file is missing).
\<close>

record ApiState =
  api_jobs :: "JobRow list"
  api_transcripts :: "TranscriptRow list"
  load_transcript_segments :: "string \<Rightarrow> TranscriptSegment list"
  load_transcript_text :: "string \<Rightarrow> string"

definition get_job :: "JobRow list \<Rightarrow> string \<Rightarrow> JobRow option" where
  "get_job js jid = find (\<lambda>j. job_id j = jid) js"

definition db_get_transcript :: "TranscriptRow list \<Rightarrow> string \<Rightarrow> TranscriptRow option" where
  "db_get_transcript ts jid = find (\<lambda>t. tr_job_id t = jid) ts"



section \<open>Transcript routes (api/routes/jobs.py)\<close>

datatype HTTPException = HTTPException nat string


text \<open>Truthiness of an optional string: neither \<open>None\<close> nor empty.\<close>

fun truthy :: "string option \<Rightarrow> bool" where
  "truthy None = False"
| "truthy (Some s) = (s \<noteq> [])"




section \<open>Export route (api/routes/export.py)\<close>

record ExportData =
  e_job_id :: string
  e_original_filename :: "string option"
  e_source_url :: "string option"
  e_text :: string
  e_segments :: "TranscriptSegment list"
  e_model :: string
  e_language :: string

text \<open>
  The body of the response: a text, or for the JSON format the dictionary that is
  dumped. The response is modelled by its body and media type.
\<close>

datatype ExportContent = TextContent string | JsonContent ExportData

record ExportResponse =
  content :: ExportContent
  media_type :: string

text \<open>The data of an export, the edited version first.\<close>

definition export_segments :: "ApiState \<Rightarrow> string \<Rightarrow> TranscriptSegment list" where
  "export_segments st jid =
     (case db_get_transcript (api_transcripts st) jid of
        None \<Rightarrow> load_transcript_segments st jid
      | Some t \<Rightarrow>
          (case edited_segments_json t of
             Some segments_data \<Rightarrow> segments_data
           | None \<Rightarrow> load_transcript_segments st jid))"

definition export_text :: "ApiState \<Rightarrow> string \<Rightarrow> string" where
  "export_text st jid =
     (case db_get_transcript (api_transcripts st) jid of
        None \<Rightarrow> load_transcript_text st jid
      | Some t \<Rightarrow>
          if truthy (edited_text t) then the (edited_text t)
          else load_transcript_text st jid)"

definition export_transcript ::
  "ApiState \<Rightarrow> string \<Rightarrow> ExportFormat \<Rightarrow> HTTPException + ExportResponse" where
  "export_transcript st jid fmt =
     (case get_job (api_jobs st) jid of
        None \<Rightarrow> Inl (HTTPException 404 (''Job '' @ jid @ '' not found''))
      | Some job \<Rightarrow>
          if status job \<noteq> DONE
          then Inl (HTTPException 409
                 (''Transcript not ready. Job status: '' @ status_value (status job)))
          else
            let segs = export_segments st jid;
                text_r = export_text st jid
            in if segs = [] \<and> text_r = []
               then Inl (HTTPException 404 ''Transcript data not found'')
               else
                 (case fmt of
                    TXT \<Rightarrow>
                      Inr \<lparr>content =
                             TextContent
                               (if text_r \<noteq> [] then text_r
                                else py_join '' '' (map ts_text segs)),
                           media_type = ''text/plain''\<rparr>
                  | SRT \<Rightarrow>
                      if segs = []
                      then Inl (HTTPException 400
                             ''SRT export requires segment data with timestamps'')
                      else Inr \<lparr>content = TextContent (segments_to_srt segs),
                                media_type = ''application/x-subrip''\<rparr>
                  | VTT \<Rightarrow>
                      if segs = []
                      then Inl (HTTPException 400
                             ''VTT export requires segment data with timestamps'')
                      else Inr \<lparr>content = TextContent (segments_to_vtt segs),
                                media_type = ''text/vtt''\<rparr>
                  | JSON \<Rightarrow>
                      Inr \<lparr>content =
                             JsonContent
                               \<lparr>e_job_id = jid,
                                e_original_filename = original_filename job,
                                e_source_url = source_url job,
                                e_text = text_r,
                                e_segments = segs,
                                e_model = model job,
                                e_language = language job\<rparr>,
                           media_type = ''application/json''\<rparr>))"


section \<open>Worker (worker/main.py, worker/transcriber.py)\<close>

text \<open>
  The exceptions that reach \<open>process_job\<close>, each with its message \<open>str(e)\<close>.
  \<open>YouTubeURLBlockedError\<close>, \<open>YouTubeDurationExceededError\<close> and \<open>YouTubeNoCaptionsError\<close>
  are subclasses of \<open>YouTubeHandlerError\<close>; \<open>OtherException\<close> stands for every other
  subclass of \<open>Exception\<close>.
\<close>

datatype exn =
    YouTubeNoCaptionsError string
  | YouTubeDurationExceededError string
  | YouTubeURLBlockedError string
  | YouTubeHandlerError string
  | AudioProcessorError string
  | TranscriberError string
  | FileNotFoundError string
  | ValueError string
  | OtherException string

text \<open>The settings that the worker reads from its environment variables.\<close>

record Config =
  WHISPER_MODEL :: string
  WHISPER_DEVICE :: string
  YOUTUBE_AUTO_INGEST_ENABLED :: bool
  UPLOADS_DIR :: string
  OUTPUTS_DIR :: string

text \<open>
  \<open>Transcriber.__init__\<close>: the check of the model size. The message leaves out the
  listing of the valid models.
\<close>

definition VALID_MODELS :: "string set" where
  "VALID_MODELS = {''tiny'', ''base'', ''small'', ''medium'', ''large-v2'', ''large-v3''}"

definition Transcriber_init :: "string \<Rightarrow> exn + string" where
  "Transcriber_init model_size =
     (if model_size \<notin> VALID_MODELS
      then Inl (TranscriberError (''Invalid model: '' @ model_size))
      else Inr model_size)"

text \<open>
  What the engines outside the worker answer while one job is processed: ffmpeg, the
  speech recogniser, the writing of the output files, yt-dlp, and the clock read by the
  two status updates.
\<close>

datatype NormalizeOutcome =
    NormalizeOk
  | NormalizeError string bool
  | NormalizeTimeout

record Environment =
  normalize_outcome :: NormalizeOutcome
  transcribe_outcome :: "string + Segment list"
  generate_all_outcome :: "exn option"
  check_duration_limit_outcome :: "exn option"
  download_audio_outcome :: "exn + string"
  fetch_captions_outcome :: "exn + Segment list"
  get_video_info_outcome :: "exn option"
  utcnow_running :: string
  utcnow_final :: string

text \<open>
  The state that the worker changes: the two tables, the files on disk, and the lines
  \<open>Job {job_id}: status \<rightarrow> {status}\<close> that \<open>update_job_status\<close> logs.
\<close>

record World =
  jobs :: "JobRow list"
  transcripts :: "TranscriptRow list"
  files :: "string set"
  status_log :: "(string \<times> JobStatus) list"

record JobDict =
  jd_id :: string
  jd_job_type :: string
  jd_source_url :: "string option"
  jd_original_filename :: "string option"
  jd_stored_filename :: "string option"
  jd_model :: string
  jd_language :: string

record Paths =
  p_json :: string
  p_txt :: string
  p_srt :: string
  p_vtt :: string

text \<open>
  \<open>get_next_job\<close>: \<open>WHERE status = 'queued' ORDER BY created_at ASC LIMIT 1\<close>. Rows with
  equal \<open>created_at\<close> are taken in table order.
\<close>

definition get_next_job :: "Config \<Rightarrow> World \<Rightarrow> JobDict option" where
  "get_next_job cfg w =
     (case sort_key created_at (filter (\<lambda>j. status j = QUEUED) (jobs w)) of
        [] \<Rightarrow> None
      | row # _ \<Rightarrow>
          Some \<lparr>jd_id = job_id row,
                jd_job_type = job_type row,
                jd_source_url = source_url row,
                jd_original_filename = original_filename row,
                jd_stored_filename = stored_filename row,
                jd_model = (if model row \<noteq> [] then model row else WHISPER_MODEL cfg),
                jd_language = language row\<rparr>)"

definition update_job_status ::
  "string \<Rightarrow> JobStatus \<Rightarrow> string option \<Rightarrow> string \<Rightarrow> World \<Rightarrow> World" where
  "update_job_status jid st err now w =
     w\<lparr>jobs :=
         map (\<lambda>j. if job_id j = jid
                   then (if truthy err
                         then j\<lparr>status := st, error_message := Some (take 1000 (the err)),
                                updated_at := now\<rparr>
                         else j\<lparr>status := st, updated_at := now\<rparr>)
                   else j) (jobs w),
       status_log := status_log w @ [(jid, st)]\<rparr>"

definition save_transcript_paths :: "string \<Rightarrow> Paths \<Rightarrow> World \<Rightarrow> World" where
  "save_transcript_paths jid paths w =
     (case db_get_transcript (transcripts w) jid of
        Some existing \<Rightarrow>
          w\<lparr>transcripts :=
              map (\<lambda>t. if tr_job_id t = jid
                        then t\<lparr>segments_json_path := Some (p_json paths),
                               plain_text_path := Some (p_txt paths),
                               srt_path := Some (p_srt paths),
                               vtt_path := Some (p_vtt paths)\<rparr>
                        else t) (transcripts w)\<rparr>
      | None \<Rightarrow>
          w\<lparr>transcripts :=
              transcripts w @
                [\<lparr>tr_job_id = jid, segments_json_path = Some (p_json paths),
                  plain_text_path = Some (p_txt paths), srt_path = Some (p_srt paths),
                  vtt_path = Some (p_vtt paths), edited_text = None,
                  edited_segments_json = None, last_edited_at = None\<rparr>]\<rparr>)"

definition path_join :: "string \<Rightarrow> string \<Rightarrow> string" where
  "path_join d name = d @ ''/'' @ name"

text \<open>
  \<open>AudioProcessor.normalize_audio\<close> on the files: a missing input raises; success leaves
  the output file; a failure of ffmpeg may leave one; a timeout deletes it.
\<close>

definition normalize_audio ::
  "Environment \<Rightarrow> string \<Rightarrow> string \<Rightarrow> string set \<Rightarrow> (exn + string) \<times> string set" where
  "normalize_audio env input_path output_path fs =
     (if input_path \<notin> fs
      then (Inl (AudioProcessorError (''Input file not found: '' @ input_path)), fs)
      else (case normalize_outcome env of
              NormalizeOk \<Rightarrow> (Inr output_path, insert output_path fs)
            | NormalizeError msg left \<Rightarrow>
                (Inl (AudioProcessorError msg),
                 if left then insert output_path fs else fs)
            | NormalizeTimeout \<Rightarrow>
                (Inl (AudioProcessorError ''Audio processing timed out''),
                 fs - {output_path})))"

text \<open>\<open>Transcriber.transcribe\<close>: every failure is raised as a \<open>TranscriberError\<close>.\<close>

definition transcribe :: "Environment \<Rightarrow> string \<Rightarrow> string set \<Rightarrow> exn + Segment list" where
  "transcribe env audio_path fs =
     (if audio_path \<notin> fs
      then Inl (TranscriberError (''Audio file not found: '' @ audio_path))
      else (case transcribe_outcome env of
              Inl msg \<Rightarrow> Inl (TranscriberError msg)
            | Inr segs \<Rightarrow> Inr segs))"

text \<open>\<open>OutputFormatter.generate_all\<close> on the files: the four outputs under the directory.\<close>

definition generate_all ::
  "Environment \<Rightarrow> string \<Rightarrow> string set \<Rightarrow> (exn + Paths) \<times> string set" where
  "generate_all env output_dir fs =
     (case generate_all_outcome env of
        Some e \<Rightarrow> (Inl e, fs)
      | None \<Rightarrow>
          (let paths = \<lparr>p_json = path_join output_dir ''transcript_segments.json'',
                        p_txt = path_join output_dir ''transcript.txt'',
                        p_srt = path_join output_dir ''transcript.srt'',
                        p_vtt = path_join output_dir ''transcript.vtt''\<rparr>
           in (Inr paths, fs \<union> {p_json paths, p_txt paths, p_srt paths, p_vtt paths})))"

text \<open>
  The transcriber of a job: a new one for a model other than the default, else the
  worker's own, which is built from the default model on first use.
\<close>

definition job_transcriber :: "Config \<Rightarrow> string \<Rightarrow> exn + string" where
  "job_transcriber cfg model_size =
     (if model_size \<noteq> WHISPER_MODEL cfg then Transcriber_init model_size
      else Transcriber_init (WHISPER_MODEL cfg))"

definition process_file_upload ::
  "Config \<Rightarrow> Environment \<Rightarrow> JobDict \<Rightarrow> string set \<Rightarrow> (exn + Paths) \<times> string set" where
  "process_file_upload cfg env job fs =
     (case jd_stored_filename job of
        None \<Rightarrow> (Inl (OtherException ''unsupported operand type(s) for /''), fs)
      | Some stored \<Rightarrow>
          let input_path = path_join (UPLOADS_DIR cfg) stored;
              job_output_dir = path_join (OUTPUTS_DIR cfg) (jd_id job);
              normalized_path = path_join job_output_dir ''audio_normalized.wav''
          in if input_path \<notin> fs
             then (Inl (FileNotFoundError (''Uploaded file not found: '' @ input_path)), fs)
             else
               (case normalize_audio env input_path normalized_path fs of
                  (Inl e, fs1) \<Rightarrow> (Inl e, fs1)
                | (Inr _, fs1) \<Rightarrow>
                    (case job_transcriber cfg (jd_model job) of
                       Inl e \<Rightarrow> (Inl e, fs1)
                     | Inr _ \<Rightarrow>
                         (case transcribe env normalized_path fs1 of
                            Inl e \<Rightarrow> (Inl e, fs1)
                          | Inr segs \<Rightarrow>
                              (case generate_all env job_output_dir fs1 of
                                 (Inl e, fs2) \<Rightarrow> (Inl e, fs2)
                               | (Inr paths, fs2) \<Rightarrow>
                                   (Inr paths, fs2 - {normalized_path}))))))"

definition process_youtube_captions ::
  "Config \<Rightarrow> Environment \<Rightarrow> JobDict \<Rightarrow> string set \<Rightarrow> (exn + Paths) \<times> string set" where
  "process_youtube_captions cfg env job fs =
     (if \<not> truthy (jd_source_url job)
      then (Inl (ValueError ''YouTube job missing source_url''), fs)
      else
        let job_output_dir = path_join (OUTPUTS_DIR cfg) (jd_id job)
        in (case fetch_captions_outcome env of
              Inl e \<Rightarrow> (Inl e, fs)
            | Inr caption_segments \<Rightarrow>
                (case get_video_info_outcome env of
                   Some e \<Rightarrow> (Inl e, fs)
                 | None \<Rightarrow> generate_all env job_output_dir fs)))"

text \<open>
  The body of the \<open>try\<close> of \<open>process_youtube_auto_ingest\<close>, which also returns the value
  of \<open>downloaded_path\<close> when it is left, and the \<open>finally\<close> clause.
\<close>

definition auto_ingest_try ::
  "Config \<Rightarrow> Environment \<Rightarrow> JobDict \<Rightarrow> string \<Rightarrow> string \<Rightarrow> string set
     \<Rightarrow> (exn + Paths) \<times> string option \<times> string set" where
  "auto_ingest_try cfg env job job_output_dir normalized_path fs =
     (case check_duration_limit_outcome env of
        Some e \<Rightarrow> (Inl e, None, fs)
      | None \<Rightarrow>
          (case download_audio_outcome env of
             Inl e \<Rightarrow> (Inl e, None, fs)
           | Inr downloaded_path \<Rightarrow>
               (let fs0 = insert downloaded_path fs
                in case normalize_audio env downloaded_path normalized_path fs0 of
                     (Inl e, fs1) \<Rightarrow> (Inl e, Some downloaded_path, fs1)
                   | (Inr _, fs1) \<Rightarrow>
                       (case job_transcriber cfg (jd_model job) of
                          Inl e \<Rightarrow> (Inl e, Some downloaded_path, fs1)
                        | Inr _ \<Rightarrow>
                            (case transcribe env normalized_path fs1 of
                               Inl e \<Rightarrow> (Inl e, Some downloaded_path, fs1)
                             | Inr segs \<Rightarrow>
                                 (case generate_all env job_output_dir fs1 of
                                    (r, fs2) \<Rightarrow> (r, Some downloaded_path, fs2)))))))"

definition auto_ingest_finally :: "string option \<Rightarrow> string \<Rightarrow> string set \<Rightarrow> string set" where
  "auto_ingest_finally downloaded_path normalized_path fs =
     (if truthy downloaded_path then fs - {the downloaded_path} else fs) - {normalized_path}"

definition process_youtube_auto_ingest ::
  "Config \<Rightarrow> Environment \<Rightarrow> JobDict \<Rightarrow> string set \<Rightarrow> (exn + Paths) \<times> string set" where
  "process_youtube_auto_ingest cfg env job fs =
     (if \<not> YOUTUBE_AUTO_INGEST_ENABLED cfg
      then (Inl (ValueError
              ''YouTube auto-ingest is disabled. Set YOUTUBE_AUTO_INGEST=true to enable.''),
            fs)
      else if \<not> truthy (jd_source_url job)
      then (Inl (ValueError ''YouTube job missing source_url''), fs)
      else
        let job_output_dir = path_join (OUTPUTS_DIR cfg) (jd_id job);
            normalized_path = path_join job_output_dir ''audio_normalized.wav''
        in (case auto_ingest_try cfg env job job_output_dir normalized_path fs of
              (r, downloaded_path, fs1) \<Rightarrow>
                (r, auto_ingest_finally downloaded_path normalized_path fs1)))"

text \<open>The \<open>except\<close> clauses of \<open>process_job\<close>: the error message written with \<open>failed\<close>.\<close>

fun failure_message :: "exn \<Rightarrow> string" where
  "failure_message (YouTubeNoCaptionsError m) =
     ''No captions available. Please upload a file instead. ('' @ m @ '')''"
| "failure_message (YouTubeDurationExceededError m) = m"
| "failure_message (AudioProcessorError m) = m"
| "failure_message (TranscriberError m) = m"
| "failure_message (YouTubeHandlerError m) = m"
| "failure_message (YouTubeURLBlockedError m) = m"
| "failure_message (FileNotFoundError m) = ''File not found: '' @ m"
| "failure_message (ValueError m) = ''Unexpected error: '' @ m"
| "failure_message (OtherException m) = ''Unexpected error: '' @ m"

definition route_job ::
  "Config \<Rightarrow> Environment \<Rightarrow> JobDict \<Rightarrow> string set \<Rightarrow> (exn + Paths) \<times> string set" where
  "route_job cfg env job fs =
     (if jd_job_type job = ''file_upload'' then process_file_upload cfg env job fs
      else if jd_job_type job = ''youtube_captions''
      then process_youtube_captions cfg env job fs
      else if jd_job_type job = ''youtube_auto_ingest''
      then process_youtube_auto_ingest cfg env job fs
      else (Inl (ValueError (''Unknown job type: '' @ jd_job_type job)), fs))"

definition process_job :: "Config \<Rightarrow> Environment \<Rightarrow> JobDict \<Rightarrow> World \<Rightarrow> World" where
  "process_job cfg env job w =
     (let w1 = update_job_status (jd_id job) RUNNING None (utcnow_running env) w
      in case route_job cfg env job (files w1) of
           (Inr paths, fs) \<Rightarrow>
             update_job_status (jd_id job) DONE None (utcnow_final env)
               (save_transcript_paths (jd_id job) paths (w1\<lparr>files := fs\<rparr>))
         | (Inl e, fs) \<Rightarrow>
             update_job_status (jd_id job) FAILED (Some (failure_message e))
               (utcnow_final env) (w1\<lparr>files := fs\<rparr>))"

text \<open>
  \<open>run\<close>: one element of the list for each iteration of the loop that is made before
  the shutdown flag is seen; an iteration that finds no job sleeps.
\<close>

fun run :: "Config \<Rightarrow> Environment list \<Rightarrow> World \<Rightarrow> World" where
  "run cfg [] w = w"
| "run cfg (env # envs) w =
     (case get_next_job cfg w of
        None \<Rightarrow> run cfg envs w
      | Some job \<Rightarrow> run cfg envs (process_job cfg env job w))"

text \<open>
  The log lines that a run adds, the statuses logged for one job, and the jobs claimed
  (set to \<open>running\<close>), in order.
\<close>

definition run_log :: "Config \<Rightarrow> Environment list \<Rightarrow> World \<Rightarrow> (string \<times> JobStatus) list" where
  "run_log cfg envs w = drop (length (status_log w)) (status_log (run cfg envs w))"

definition statuses_of :: "string \<Rightarrow> (string \<times> JobStatus) list \<Rightarrow> JobStatus list" where
  "statuses_of jid lg = map snd (filter (\<lambda>e. fst e = jid) lg)"

definition claimed :: "(string \<times> JobStatus) list \<Rightarrow> string list" where
  "claimed lg = map fst (filter (\<lambda>e. snd e = RUNNING) lg)"


section \<open>Example inputs\<close>



definition sample_done_job :: JobRow where
  "sample_done_job =
     \<lparr>job_id = ''j1'', job_type = ''file_upload'', source_url = None,
      original_filename = Some ''talk.mp3'', stored_filename = Some ''ab12cd34_talk.mp3'',
      status = DONE, created_at = ''2024-01-01T10:00:00'',
      updated_at = ''2024-01-01T10:05:00'', model = ''small'', language = ''auto'',
      error_message = None\<rparr>"




definition state_without_artifacts :: ApiState where
  "state_without_artifacts =
     \<lparr>api_jobs = [sample_done_job], api_transcripts = [],
      load_transcript_segments = (\<lambda>jid. []),
      load_transcript_text = (\<lambda>jid. [])\<rparr>"

definition state_with_text_only :: ApiState where
  "state_with_text_only =
     \<lparr>api_jobs = [sample_done_job], api_transcripts = [],
      load_transcript_segments = (\<lambda>jid. []),
      load_transcript_text = (\<lambda>jid. ''Hello world'')\<rparr>"

text \<open>A worker with one queued upload, for which ffmpeg succeeds and the recogniser fails.\<close>

definition sample_config :: Config where
  "sample_config =
     \<lparr>WHISPER_MODEL = ''small'', WHISPER_DEVICE = ''auto'',
      YOUTUBE_AUTO_INGEST_ENABLED = True,
      UPLOADS_DIR = ''data/uploads'', OUTPUTS_DIR = ''data/outputs''\<rparr>"

definition env_transcribe_fails :: Environment where
  "env_transcribe_fails =
     \<lparr>normalize_outcome = NormalizeOk,
      transcribe_outcome = Inl ''Transcription failed: out of memory'',
      generate_all_outcome = None,
      check_duration_limit_outcome = None,
      download_audio_outcome = Inr ''data/youtube_temp/dQw4w9WgXcQ.wav'',
      fetch_captions_outcome = Inr [],
      get_video_info_outcome = None,
      utcnow_running = ''2024-01-01T10:00:05'',
      utcnow_final = ''2024-01-01T10:00:09''\<rparr>"

definition upload_job :: JobDict where
  "upload_job =
     \<lparr>jd_id = ''j1'', jd_job_type = ''file_upload'', jd_source_url = None,
      jd_original_filename = Some ''talk.mp3'',
      jd_stored_filename = Some ''ab12cd34_talk.mp3'',
      jd_model = ''small'', jd_language = ''auto''\<rparr>"

definition world_with_upload :: World where
  "world_with_upload =
     \<lparr>jobs = [sample_done_job\<lparr>status := QUEUED\<rparr>],
      transcripts = [],
      files = {''data/uploads/ab12cd34_talk.mp3''},
      status_log = []\<rparr>"

text \<open>Three queued jobs, stored in an order other than that of their creation.\<close>

definition queued_job :: "string \<Rightarrow> string \<Rightarrow> JobRow" where
  "queued_job jid t =
     \<lparr>job_id = jid, job_type = ''file_upload'', source_url = None,
      original_filename = Some ''talk.mp3'', stored_filename = Some ''ab12cd34_talk.mp3'',
      status = QUEUED, created_at = t, updated_at = t, model = ''small'',
      language = ''auto'', error_message = None\<rparr>"

definition world_three_queued :: World where
  "world_three_queued =
     \<lparr>jobs = [queued_job ''j3'' ''2024-01-01T10:00:03'',
              queued_job ''j1'' ''2024-01-01T10:00:01'',
              queued_job ''j2'' ''2024-01-01T10:00:02.500000''],
      transcripts = [],
      files = {''data/uploads/ab12cd34_talk.mp3''},
      status_log = []\<rparr>"



text \<open>A queued upload for which the API was given the model \<open>large\<close>.\<close>

definition world_with_large_upload :: World where
  "world_with_large_upload =
     \<lparr>jobs = [(queued_job ''j1'' ''2024-01-01T10:00:01'')\<lparr>model := ''large''\<rparr>],
      transcripts = [],
      files = {''data/uploads/ab12cd34_talk.mp3''},
      status_log = []\<rparr>"

section \<open>Properties of the Python primitives\<close>






section \<open>The JSON artifact\<close>





section \<open>Export of a transcript without segments\<close>

text \<open>
  C9 (as amended): for a job in status done whose data for the export (edited or
  stored) has no segments, an export as SRT or VTT fails with the error 400 "export
  requires segment data" provided that the text is not empty, and then the exports as
  TXT and JSON succeed; when the text is empty as well, every format fails with the
  error 404 "Transcript data not found".
\<close>

theorem export_zero_segments:
  assumes "get_job (api_jobs st) jid = Some job" and "status job = DONE"
    and "export_segments st jid = []"
  shows "(export_text st jid \<noteq> [] \<longrightarrow>
            export_transcript st jid SRT
              = Inl (HTTPException 400 ''SRT export requires segment data with timestamps'')
          \<and> export_transcript st jid VTT
              = Inl (HTTPException 400 ''VTT export requires segment data with timestamps'')
          \<and> export_transcript st jid TXT
              = Inr \<lparr>content = TextContent (export_text st jid), media_type = ''text/plain''\<rparr>
          \<and> (\<exists>d. export_transcript st jid JSON
                    = Inr \<lparr>content = JsonContent d, media_type = ''application/json''\<rparr>))
       \<and> (export_text st jid = [] \<longrightarrow>
            (\<forall>fmt. export_transcript st jid fmt
                     = Inl (HTTPException 404 ''Transcript data not found'')))"
  using assms by (simp add: export_transcript_def)

theorem export_zero_segments_witness:
  "get_job (api_jobs state_with_text_only) ''j1'' = Some sample_done_job
   \<and> status sample_done_job = DONE
   \<and> export_segments state_with_text_only ''j1'' = []
   \<and> export_text state_with_text_only ''j1'' \<noteq> []
   \<and> export_transcript state_with_text_only ''j1'' SRT
       = Inl (HTTPException 400 ''SRT export requires segment data with timestamps'')
   \<and> export_transcript state_with_text_only ''j1'' VTT
       = Inl (HTTPException 400 ''VTT export requires segment data with timestamps'')"
proof -
  have a: "get_job (api_jobs state_with_text_only) ''j1'' = Some sample_done_job"
    by (simp add: get_job_def state_with_text_only_def sample_done_job_def)
  have b: "status sample_done_job = DONE"
    by (simp add: sample_done_job_def)
  have c: "export_segments state_with_text_only ''j1'' = []"
    by (simp add: export_segments_def db_get_transcript_def state_with_text_only_def)
  have d: "export_text state_with_text_only ''j1'' \<noteq> []"
    by (simp add: export_text_def db_get_transcript_def state_with_text_only_def)
  from export_zero_segments [OF a b c] d a b c show ?thesis by simp
qed

theorem export_zero_segments_counterexample:
  "get_job (api_jobs state_without_artifacts) ''j1'' = Some sample_done_job
   \<and> status sample_done_job = DONE
   \<and> export_segments state_without_artifacts ''j1'' = []
   \<and> export_transcript state_without_artifacts ''j1'' SRT
       = Inl (HTTPException 404 ''Transcript data not found'')
   \<and> export_transcript state_without_artifacts ''j1'' SRT
       \<noteq> Inl (HTTPException 400 ''SRT export requires segment data with timestamps'')"
  by (simp add: export_transcript_def export_segments_def export_text_def get_job_def
      db_get_transcript_def state_without_artifacts_def sample_done_job_def)

section \<open>Precedence of saved edits\<close>









section \<open>Status updates of the worker\<close>

lemma update_job_status_fields [simp]:
  "status_log (update_job_status jid st err now w) = status_log w @ [(jid, st)]"
  "files (update_job_status jid st err now w) = files w"
  "transcripts (update_job_status jid st err now w) = transcripts w"
  "map job_id (jobs (update_job_status jid st err now w)) = map job_id (jobs w)"
  by (simp_all add: update_job_status_def)

lemma save_transcript_paths_fields [simp]:
  "status_log (save_transcript_paths jid paths w) = status_log w"
  "jobs (save_transcript_paths jid paths w) = jobs w"
  "files (save_transcript_paths jid paths w) = files w"
  by (simp_all add: save_transcript_paths_def split: option.splits)

lemma update_job_status_other:
  "j \<in> set (jobs w) \<Longrightarrow> job_id j \<noteq> jid
     \<Longrightarrow> j \<in> set (jobs (update_job_status jid st err now w))"
  by (force simp: update_job_status_def)

lemma jobs_update_job_status:
  "jobs (update_job_status jid st err now w)
     = map (\<lambda>j. if job_id j = jid
                 then (if truthy err
                       then j\<lparr>status := st, error_message := Some (take 1000 (the err)),
                              updated_at := now\<rparr>
                       else j\<lparr>status := st, updated_at := now\<rparr>)
                 else j) (jobs w)"
  by (simp add: update_job_status_def)

lemma update_job_status_same:
  assumes "j \<in> set (jobs (update_job_status jid st err now w))" and "job_id j = jid"
  shows "status j = st"
proof -
  let ?f = "\<lambda>j. if job_id j = jid
                 then (if truthy err
                       then j\<lparr>status := st, error_message := Some (take 1000 (the err)),
                              updated_at := now\<rparr>
                       else j\<lparr>status := st, updated_at := now\<rparr>)
                 else j"
  from assms(1) have "j \<in> ?f ` set (jobs w)"
    unfolding jobs_update_job_status set_map .
  then obtain j0 where j: "j = ?f j0" by (rule imageE)
  show ?thesis
  proof (cases "job_id j0 = jid")
    case True
    then show ?thesis by (cases "truthy err") (simp_all add: j)
  next
    case False
    then have "j = j0" by (simp add: j)
    with False assms(2) show ?thesis by simp
  qed
qed

text \<open>The two ways in which \<open>process_job\<close> ends.\<close>

lemma process_job_cases:
  obtains (ok) paths fs where
      "route_job cfg env job (files w) = (Inr paths, fs)"
      "process_job cfg env job w
         = update_job_status (jd_id job) DONE None (utcnow_final env)
             (save_transcript_paths (jd_id job) paths
                ((update_job_status (jd_id job) RUNNING None (utcnow_running env) w)
                   \<lparr>files := fs\<rparr>))"
  | (err) e fs where
      "route_job cfg env job (files w) = (Inl e, fs)"
      "process_job cfg env job w
         = update_job_status (jd_id job) FAILED (Some (failure_message e)) (utcnow_final env)
             ((update_job_status (jd_id job) RUNNING None (utcnow_running env) w)
                \<lparr>files := fs\<rparr>)"
proof (cases "route_job cfg env job (files w)")
  case (Pair r fs)
  show thesis
  proof (cases r)
    case (Inl e)
    show thesis
      by (rule err [of e fs]) (simp_all add: Pair Inl process_job_def Let_def)
  next
    case (Inr paths)
    show thesis
      by (rule ok [of paths fs]) (simp_all add: Pair Inr process_job_def Let_def)
  qed
qed

lemma update_files_fields [simp]:
  "jobs (w\<lparr>files := fs\<rparr>) = jobs w"
  "status_log (w\<lparr>files := fs\<rparr>) = status_log w"
  by simp_all

lemma process_job_log:
  "\<exists>s. (s = DONE \<or> s = FAILED)
       \<and> status_log (process_job cfg env job w)
           = status_log w @ [(jd_id job, RUNNING), (jd_id job, s)]
       \<and> (\<forall>j\<in>set (jobs (process_job cfg env job w)). job_id j = jd_id job \<longrightarrow> status j = s)"
proof (cases rule: process_job_cases [of cfg env job w])
  case (ok paths fs)
  show ?thesis
    by (rule exI [of _ DONE]) (auto simp: ok(2) dest: update_job_status_same)
next
  case (err e fs)
  show ?thesis
    by (rule exI [of _ FAILED]) (auto simp: err(2) dest: update_job_status_same)
qed

lemma process_job_ids [simp]:
  "map job_id (jobs (process_job cfg env job w)) = map job_id (jobs w)"
  by (cases rule: process_job_cases [of cfg env job w]) simp_all

lemma process_job_other:
  assumes "j \<in> set (jobs w)" and "job_id j \<noteq> jd_id job"
  shows "j \<in> set (jobs (process_job cfg env job w))"
proof (cases rule: process_job_cases [of cfg env job w])
  case (ok paths fs)
  have "j \<in> set (jobs ((update_job_status (jd_id job) RUNNING None (utcnow_running env) w)
                   \<lparr>files := fs\<rparr>))"
    using update_job_status_other [OF assms] by simp
  then have "j \<in> set (jobs (save_transcript_paths (jd_id job) paths
                ((update_job_status (jd_id job) RUNNING None (utcnow_running env) w)
                   \<lparr>files := fs\<rparr>)))"
    by simp
  then show ?thesis
    unfolding ok(2) using assms(2) by (rule update_job_status_other)
next
  case (err e fs)
  have "j \<in> set (jobs ((update_job_status (jd_id job) RUNNING None (utcnow_running env) w)
                   \<lparr>files := fs\<rparr>))"
    using update_job_status_other [OF assms] by simp
  then show ?thesis
    unfolding err(2) using assms(2) by (rule update_job_status_other)
qed


section \<open>Jobs with the model large\<close>

lemma job_transcriber_large:
  "job_transcriber cfg ''large'' = Inl (TranscriberError ''Invalid model: large'')"
  by (simp add: job_transcriber_def Transcriber_init_def VALID_MODELS_def)

lemma process_file_upload_large:
  assumes "jd_model job = ''large''"
  shows "\<exists>e fs'. process_file_upload cfg env job fs = (Inl e, fs')"
proof (cases "jd_stored_filename job")
  case None
  then show ?thesis by (simp add: process_file_upload_def)
next
  case (Some stored)
  show ?thesis
  proof (cases "path_join (UPLOADS_DIR cfg) stored \<in> fs")
    case False
    then show ?thesis using Some by (simp add: process_file_upload_def Let_def)
  next
    case True
    obtain r fs1 where n: "normalize_audio env (path_join (UPLOADS_DIR cfg) stored)
        (path_join (path_join (OUTPUTS_DIR cfg) (jd_id job)) ''audio_normalized.wav'') fs
        = (r, fs1)"
      by (cases "normalize_audio env (path_join (UPLOADS_DIR cfg) stored)
        (path_join (path_join (OUTPUTS_DIR cfg) (jd_id job)) ''audio_normalized.wav'') fs")
    show ?thesis
      using Some True n assms
      by (cases r) (simp_all add: process_file_upload_def Let_def job_transcriber_large)
  qed
qed

lemma auto_ingest_try_large:
  assumes "jd_model job = ''large''"
  shows "\<exists>e d fs'. auto_ingest_try cfg env job out_dir npath fs = (Inl e, d, fs')"
proof (cases "check_duration_limit_outcome env")
  case (Some e)
  then show ?thesis by (simp add: auto_ingest_try_def)
next
  case None
  show ?thesis
  proof (cases "download_audio_outcome env")
    case (Inl e)
    then show ?thesis using None by (simp add: auto_ingest_try_def)
  next
    case (Inr p)
    obtain r fs1 where n: "normalize_audio env p npath (insert p fs) = (r, fs1)"
      by (cases "normalize_audio env p npath (insert p fs)")
    show ?thesis
      using None Inr n assms
      by (cases r) (simp_all add: auto_ingest_try_def Let_def job_transcriber_large)
  qed
qed

lemma process_youtube_auto_ingest_large:
  assumes "jd_model job = ''large''"
  shows "\<exists>e fs'. process_youtube_auto_ingest cfg env job fs = (Inl e, fs')"
proof -
  obtain e d fs' where t: "auto_ingest_try cfg env job (path_join (OUTPUTS_DIR cfg) (jd_id job))
      (path_join (path_join (OUTPUTS_DIR cfg) (jd_id job)) ''audio_normalized.wav'') fs
      = (Inl e, d, fs')"
    using auto_ingest_try_large [OF assms] by blast
  show ?thesis
    by (simp add: process_youtube_auto_ingest_def Let_def t)
qed

lemma route_job_large:
  assumes "jd_model job = ''large''"
    and "jd_job_type job = ''file_upload'' \<or> jd_job_type job = ''youtube_auto_ingest''"
  shows "\<exists>e fs'. route_job cfg env job fs = (Inl e, fs')"
  using assms process_file_upload_large [OF assms(1)]
    process_youtube_auto_ingest_large [OF assms(1)]
  by (auto simp: route_job_def)

lemma process_job_large:
  assumes "jd_model job = ''large''"
    and "jd_job_type job = ''file_upload'' \<or> jd_job_type job = ''youtube_auto_ingest''"
  shows "status_log (process_job cfg env job w)
           = status_log w @ [(jd_id job, RUNNING), (jd_id job, FAILED)]"
    and "\<forall>j\<in>set (jobs (process_job cfg env job w)).
           job_id j = jd_id job \<longrightarrow> status j = FAILED"
proof -
  obtain e fs' where r: "route_job cfg env job (files w) = (Inl e, fs')"
    using route_job_large [OF assms] by blast
  have p: "process_job cfg env job w
         = update_job_status (jd_id job) FAILED (Some (failure_message e)) (utcnow_final env)
             ((update_job_status (jd_id job) RUNNING None (utcnow_running env) w)
                \<lparr>files := fs'\<rparr>)"
    by (simp add: process_job_def Let_def r)
  show "status_log (process_job cfg env job w)
           = status_log w @ [(jd_id job, RUNNING), (jd_id job, FAILED)]"
    unfolding p by simp
  show "\<forall>j\<in>set (jobs (process_job cfg env job w)).
             job_id j = jd_id job \<longrightarrow> status j = FAILED"
    unfolding p using update_job_status_same by blast
qed


section \<open>Clean-up of intermediate files\<close>

text \<open>
  The auto-ingest pipeline, which runs its clean-up in a \<open>finally\<close> clause, leaves
  neither the normalized audio file nor the downloaded file, whatever happens.
\<close>

lemma auto_ingest_try_downloaded:
  "auto_ingest_try cfg env job out_dir npath fs = (r, d, fs')
     \<Longrightarrow> check_duration_limit_outcome env = None
     \<Longrightarrow> download_audio_outcome env = Inr p
     \<Longrightarrow> d = Some p"
proof -
  assume t: "auto_ingest_try cfg env job out_dir npath fs = (r, d, fs')"
    and c: "check_duration_limit_outcome env = None"
    and dl: "download_audio_outcome env = Inr p"
  obtain nr fs1 where n: "normalize_audio env p npath (insert p fs) = (nr, fs1)"
    by (cases "normalize_audio env p npath (insert p fs)")
  obtain gr fs2 where g: "generate_all env out_dir fs1 = (gr, fs2)"
    by (cases "generate_all env out_dir fs1")
  show "d = Some p"
    using t c dl n g
    by (cases nr; cases "job_transcriber cfg (jd_model job)"; cases "transcribe env npath fs1")
       (simp_all add: auto_ingest_try_def Let_def)
qed

lemma auto_ingest_removes_intermediates:
  assumes "YOUTUBE_AUTO_INGEST_ENABLED cfg" and "truthy (jd_source_url job)"
  shows "path_join (path_join (OUTPUTS_DIR cfg) (jd_id job)) ''audio_normalized.wav''
           \<notin> snd (process_youtube_auto_ingest cfg env job fs)"
    and "check_duration_limit_outcome env = None \<Longrightarrow> download_audio_outcome env = Inr p
           \<Longrightarrow> p \<noteq> [] \<Longrightarrow> p \<notin> snd (process_youtube_auto_ingest cfg env job fs)"
proof -
  let ?out = "path_join (OUTPUTS_DIR cfg) (jd_id job)"
  let ?np = "path_join ?out ''audio_normalized.wav''"
  obtain r d fs' where t: "auto_ingest_try cfg env job ?out ?np fs = (r, d, fs')"
    by (cases "auto_ingest_try cfg env job ?out ?np fs") auto
  have s: "snd (process_youtube_auto_ingest cfg env job fs) = auto_ingest_finally d ?np fs'"
    using assms by (simp add: process_youtube_auto_ingest_def Let_def t)
  show "?np \<notin> snd (process_youtube_auto_ingest cfg env job fs)"
    unfolding s by (simp add: auto_ingest_finally_def)
  show "p \<notin> snd (process_youtube_auto_ingest cfg env job fs)"
    if "check_duration_limit_outcome env = None" "download_audio_outcome env = Inr p" "p \<noteq> []"
  proof -
    have "d = Some p" using auto_ingest_try_downloaded [OF t that(1) that(2)] .
    then show ?thesis unfolding s using that(3) by (simp add: auto_ingest_finally_def)
  qed
qed

text \<open>
  C2 fails for uploads: when ffmpeg succeeds and the recogniser raises, the job of
  \<open>world_with_upload\<close> ends as \<open>failed\<close> and its normalized audio file is still on disk.
\<close>

theorem file_upload_keeps_normalized_audio:
  "get_next_job sample_config world_with_upload = Some upload_job
   \<and> status_log (process_job sample_config env_transcribe_fails upload_job world_with_upload)
       = [(''j1'', RUNNING), (''j1'', FAILED)]
   \<and> map status (jobs (process_job sample_config env_transcribe_fails upload_job
                          world_with_upload))
       = [FAILED]
   \<and> ''data/outputs/j1/audio_normalized.wav''
       \<in> files (process_job sample_config env_transcribe_fails upload_job world_with_upload)"
  by (simp add: get_next_job_def process_job_def route_job_def process_file_upload_def
      normalize_audio_def transcribe_def job_transcriber_def Transcriber_init_def
      VALID_MODELS_def update_job_status_def path_join_def Let_def
      sample_config_def env_transcribe_fails_def upload_job_def world_with_upload_def
      sample_done_job_def)

section \<open>The worker loop\<close>

lemma get_next_job_Some:
  assumes "get_next_job cfg w = Some job"
  shows "\<exists>row\<in>set (jobs w). status row = QUEUED \<and> job_id row = jd_id job
           \<and> (\<forall>j\<in>set (jobs w). status j = QUEUED \<longrightarrow> created_at row \<le> created_at j)"
proof -
  let ?q = "filter (\<lambda>j. status j = QUEUED) (jobs w)"
  obtain row rest where s: "sort_key created_at ?q = row # rest"
    using assms by (cases "sort_key created_at ?q") (simp_all add: get_next_job_def)
  have id: "job_id row = jd_id job"
    using assms by (auto simp: get_next_job_def s)
  have set_eq: "set (row # rest) = set ?q"
    using set_sort [of created_at ?q] by (simp add: s)
  then have mem: "row \<in> set ?q" by auto
  have "sorted (map created_at (row # rest))"
    using sorted_sort_key [of created_at ?q] by (simp add: s)
  then have le: "\<forall>y\<in>set (row # rest). created_at row \<le> created_at y"
    by auto
  have "\<forall>j\<in>set (jobs w). status j = QUEUED \<longrightarrow> created_at row \<le> created_at j"
  proof (intro ballI impI)
    fix j assume "j \<in> set (jobs w)" "status j = QUEUED"
    then have "j \<in> set ?q" by simp
    then have "j \<in> set (row # rest)" using set_eq by simp
    then show "created_at row \<le> created_at j" using le by blast
  qed
  then show ?thesis using mem id by auto
qed

lemma get_next_job_None:
  "get_next_job cfg w = None \<longleftrightarrow> (\<forall>j\<in>set (jobs w). status j \<noteq> QUEUED)"
proof -
  let ?q = "filter (\<lambda>j. status j = QUEUED) (jobs w)"
  have "get_next_job cfg w = None \<longleftrightarrow> sort_key created_at ?q = []"
    by (cases "sort_key created_at ?q") (simp_all add: get_next_job_def)
  also have "\<dots> \<longleftrightarrow> ?q = []"
    using length_sort [of created_at ?q] by (metis length_0_conv)
  also have "\<dots> \<longleftrightarrow> (\<forall>j\<in>set (jobs w). status j \<noteq> QUEUED)"
    by (simp add: filter_empty_conv)
  finally show ?thesis .
qed

lemma distinct_job_id_eq:
  "distinct (map job_id js) \<Longrightarrow> a \<in> set js \<Longrightarrow> b \<in> set js \<Longrightarrow> job_id a = job_id b
     \<Longrightarrow> a = b"
  by (meson distinct_map inj_onD)

lemma ex_job_with_id: "i \<in> set (map job_id js) \<Longrightarrow> \<exists>j'\<in>set js. job_id j' = i"
  by (induction js) auto

lemma status_log_run: "status_log (run cfg envs w) = status_log w @ run_log cfg envs w"
proof -
  have "\<exists>ext. status_log (run cfg envs w) = status_log w @ ext"
  proof (induction envs arbitrary: w)
    case Nil
    show ?case by simp
  next
    case (Cons env envs)
    show ?case
    proof (cases "get_next_job cfg w")
      case None
      then show ?thesis using Cons.IH [of w] by simp
    next
      case (Some job)
      obtain ext where "status_log (run cfg envs (process_job cfg env job w))
          = status_log (process_job cfg env job w) @ ext"
        using Cons.IH [of "process_job cfg env job w"] by blast
      moreover obtain s where "status_log (process_job cfg env job w)
           = status_log w @ [(jd_id job, RUNNING), (jd_id job, s)]"
        using process_job_log [of cfg env job w] by blast
      ultimately show ?thesis using Some by simp
    qed
  qed
  then show ?thesis by (auto simp: run_log_def)
qed

lemma run_log_Nil [simp]: "run_log cfg [] w = []"
  by (simp add: run_log_def)

lemma run_log_None:
  "get_next_job cfg w = None \<Longrightarrow> run_log cfg (env # envs) w = run_log cfg envs w"
  by (simp add: run_log_def)

lemma run_log_Some:
  assumes "get_next_job cfg w = Some job"
    and "status_log (process_job cfg env job w) = status_log w @ ext"
  shows "run_log cfg (env # envs) w = ext @ run_log cfg envs (process_job cfg env job w)"
proof -
  have "status_log (run cfg (env # envs) w)
          = status_log w @ ext @ run_log cfg envs (process_job cfg env job w)"
    using assms status_log_run [of cfg envs "process_job cfg env job w"] by simp
  then show ?thesis by (simp add: run_log_def)
qed

lemma statuses_of_run:
  assumes "distinct (map job_id (jobs w))" and "j \<in> set (jobs w)"
  shows "(status j = QUEUED \<longrightarrow>
            statuses_of (job_id j) (run_log cfg envs w)
              \<in> {[], [RUNNING, DONE], [RUNNING, FAILED]})
       \<and> (status j \<noteq> QUEUED \<longrightarrow> statuses_of (job_id j) (run_log cfg envs w) = [])"
  using assms
proof (induction envs arbitrary: w j)
  case Nil
  show ?case by (simp add: statuses_of_def)
next
  case (Cons env envs)
  show ?case
  proof (cases "get_next_job cfg w")
    case None
    show ?thesis
      unfolding run_log_None [OF None] using Cons.IH [OF Cons.prems] .
  next
    case (Some job)
    let ?w' = "process_job cfg env job w"
    obtain row where row: "row \<in> set (jobs w)" "status row = QUEUED" "job_id row = jd_id job"
      using get_next_job_Some [OF Some] by blast
    obtain s where s: "s = DONE \<or> s = FAILED"
      and lg: "status_log ?w' = status_log w @ [(jd_id job, RUNNING), (jd_id job, s)]"
      and st: "\<forall>j'\<in>set (jobs ?w'). job_id j' = jd_id job \<longrightarrow> status j' = s"
      using process_job_log [of cfg env job w] by blast
    have rl: "run_log cfg (env # envs) w
                = [(jd_id job, RUNNING), (jd_id job, s)] @ run_log cfg envs ?w'"
      using run_log_Some [OF Some lg] .
    have d': "distinct (map job_id (jobs ?w'))" using Cons.prems(1) by simp
    show ?thesis
    proof (cases "job_id j = jd_id job")
      case True
      have "j = row"
        using distinct_job_id_eq [OF Cons.prems(1) Cons.prems(2) row(1)] True row(3) by simp
      then have q: "status j = QUEUED" using row(2) by simp
      have "job_id j \<in> set (map job_id (jobs w))" using Cons.prems(2) by simp
      then have "job_id j \<in> set (map job_id (jobs ?w'))" by (simp only: process_job_ids)
      then obtain j' where j': "j' \<in> set (jobs ?w')" "job_id j' = job_id j"
        using ex_job_with_id by meson
      then have "status j' = s" using st True by simp
      then have "status j' \<noteq> QUEUED" using s by auto
      then have "statuses_of (job_id j') (run_log cfg envs ?w') = []"
        using Cons.IH [OF d' j'(1)] by simp
      then have "statuses_of (job_id j) (run_log cfg (env # envs) w) = [RUNNING, s]"
        using True j'(2) by (simp add: rl statuses_of_def)
      then show ?thesis using q s by auto
    next
      case False
      have "j \<in> set (jobs ?w')" using process_job_other [OF Cons.prems(2) False] .
      note ih = Cons.IH [OF d' this]
      have "statuses_of (job_id j) (run_log cfg (env # envs) w)
              = statuses_of (job_id j) (run_log cfg envs ?w')"
        using False by (simp add: rl statuses_of_def)
      then show ?thesis using ih by simp
    qed
  qed
qed

lemma claimed_order:
  assumes "distinct (map job_id (jobs w))"
    and "j1 \<in> set (jobs w)" and "status j1 = QUEUED"
    and "j2 \<in> set (jobs w)" and "created_at j1 < created_at j2"
    and "claimed (run_log cfg envs w) = pre @ job_id j2 # post"
  shows "job_id j1 \<in> set pre"
  using assms
proof (induction envs arbitrary: w pre)
  case Nil
  then show ?case by (simp add: claimed_def)
next
  case (Cons env envs)
  show ?case
  proof (cases "get_next_job cfg w")
    case None
    show ?thesis
      using Cons.IH [OF Cons.prems(1-5)] Cons.prems(6) unfolding run_log_None [OF None] .
  next
    case (Some job)
    let ?w' = "process_job cfg env job w"
    obtain row where row: "row \<in> set (jobs w)" "status row = QUEUED" "job_id row = jd_id job"
      and mn: "\<forall>j\<in>set (jobs w). status j = QUEUED \<longrightarrow> created_at row \<le> created_at j"
      using get_next_job_Some [OF Some] by blast
    obtain s where s: "s = DONE \<or> s = FAILED"
      and lg: "status_log ?w' = status_log w @ [(jd_id job, RUNNING), (jd_id job, s)]"
      using process_job_log [of cfg env job w] by blast
    have rl: "run_log cfg (env # envs) w
                = [(jd_id job, RUNNING), (jd_id job, s)] @ run_log cfg envs ?w'"
      using run_log_Some [OF Some lg] .
    have cl: "claimed (run_log cfg (env # envs) w) = jd_id job # claimed (run_log cfg envs ?w')"
      using s by (auto simp: rl claimed_def)
    have not2: "jd_id job \<noteq> job_id j2"
    proof
      assume e: "jd_id job = job_id j2"
      have "row = j2"
        using distinct_job_id_eq [OF Cons.prems(1) row(1) Cons.prems(4)] e row(3) by simp
      then have "created_at j2 \<le> created_at j1"
        using mn Cons.prems(2) Cons.prems(3) by blast
      then show False using Cons.prems(5) by simp
    qed
    from Cons.prems(6) cl have eq: "jd_id job # claimed (run_log cfg envs ?w')
        = pre @ job_id j2 # post" by simp
    show ?thesis
    proof (cases pre)
      case Nil
      then show ?thesis using eq not2 by simp
    next
      case (Cons x pre')
      then have x: "x = jd_id job"
        and rest: "claimed (run_log cfg envs ?w') = pre' @ job_id j2 # post"
        using eq by simp_all
      show ?thesis
      proof (cases "jd_id job = job_id j1")
        case True
        then show ?thesis using Cons x by simp
      next
        case False
        have d': "distinct (map job_id (jobs ?w'))" using Cons.prems(1) by simp
        have m1: "j1 \<in> set (jobs ?w')"
          using process_job_other [OF Cons.prems(2)] False by metis
        have m2: "j2 \<in> set (jobs ?w')"
          using process_job_other [OF Cons.prems(4)] not2 by metis
        have "job_id j1 \<in> set pre'"
          using Cons.IH [OF d' m1 Cons.prems(3) m2 Cons.prems(5) rest] .
        then show ?thesis using Cons by simp
      qed
    qed
  qed
qed


section \<open>Status sequence of a job\<close>






section \<open>Order of claiming\<close>

text \<open>
  C3: when some job is queued, \<open>get_next_job\<close> returns a queued job whose \<open>created_at\<close>
  is the smallest among the queued jobs; it returns \<open>None\<close> exactly when no job is
  queued; and over any number of iterations of the worker loop on a table with unique
  job ids, a job is claimed only after every job that was queued with a smaller
  \<open>created_at\<close>.
\<close>

theorem get_next_job_fifo:
  "((\<exists>j\<in>set (jobs w). status j = QUEUED) \<longrightarrow>
      (\<exists>row\<in>set (jobs w). \<exists>job. get_next_job cfg w = Some job
          \<and> jd_id job = job_id row \<and> status row = QUEUED
          \<and> (\<forall>j\<in>set (jobs w). status j = QUEUED \<longrightarrow> created_at row \<le> created_at j)))
   \<and> (get_next_job cfg w = None \<longleftrightarrow> (\<forall>j\<in>set (jobs w). status j \<noteq> QUEUED))
   \<and> (distinct (map job_id (jobs w)) \<and> j1 \<in> set (jobs w) \<and> status j1 = QUEUED
        \<and> j2 \<in> set (jobs w) \<and> created_at j1 < created_at j2 \<longrightarrow>
        (\<forall>pre post. claimed (run_log cfg envs w) = pre @ job_id j2 # post
           \<longrightarrow> job_id j1 \<in> set pre))"
proof (intro conjI impI allI)
  assume q: "\<exists>j\<in>set (jobs w). status j = QUEUED"
  then have "get_next_job cfg w \<noteq> None" using get_next_job_None [of cfg w] by blast
  then obtain job where job: "get_next_job cfg w = Some job" by blast
  show "\<exists>row\<in>set (jobs w). \<exists>job. get_next_job cfg w = Some job
          \<and> jd_id job = job_id row \<and> status row = QUEUED
          \<and> (\<forall>j\<in>set (jobs w). status j = QUEUED \<longrightarrow> created_at row \<le> created_at j)"
    using get_next_job_Some [OF job] job by metis
next
  show "get_next_job cfg w = None \<longleftrightarrow> (\<forall>j\<in>set (jobs w). status j \<noteq> QUEUED)"
    by (rule get_next_job_None)
next
  fix pre post
  assume h: "distinct (map job_id (jobs w)) \<and> j1 \<in> set (jobs w) \<and> status j1 = QUEUED
        \<and> j2 \<in> set (jobs w) \<and> created_at j1 < created_at j2"
    and c: "claimed (run_log cfg envs w) = pre @ job_id j2 # post"
  show "job_id j1 \<in> set pre"
    using claimed_order [of w j1 j2 cfg envs pre post] h c by blast
qed

theorem get_next_job_fifo_witness:
  "distinct (map job_id (jobs world_three_queued))
   \<and> queued_job ''j1'' ''2024-01-01T10:00:01'' \<in> set (jobs world_three_queued)
   \<and> status (queued_job ''j1'' ''2024-01-01T10:00:01'') = QUEUED
   \<and> queued_job ''j3'' ''2024-01-01T10:00:03'' \<in> set (jobs world_three_queued)
   \<and> created_at (queued_job ''j1'' ''2024-01-01T10:00:01'')
       < created_at (queued_job ''j3'' ''2024-01-01T10:00:03'')
   \<and> claimed (run_log sample_config
                 [env_transcribe_fails, env_transcribe_fails, env_transcribe_fails]
                 world_three_queued)
       = [''j1'', ''j2''] @ job_id (queued_job ''j3'' ''2024-01-01T10:00:03'') # []
   \<and> job_id (queued_job ''j1'' ''2024-01-01T10:00:01'') \<in> set [''j1'', ''j2'']
   \<and> get_next_job sample_config world_three_queued \<noteq> None"
proof -
  have a: "distinct (map job_id (jobs world_three_queued))"
    by (simp add: world_three_queued_def queued_job_def)
  have b: "queued_job ''j1'' ''2024-01-01T10:00:01'' \<in> set (jobs world_three_queued)"
    by (simp add: world_three_queued_def)
  have c: "status (queued_job ''j1'' ''2024-01-01T10:00:01'') = QUEUED"
    by (simp add: queued_job_def)
  have d: "queued_job ''j3'' ''2024-01-01T10:00:03'' \<in> set (jobs world_three_queued)"
    by (simp add: world_three_queued_def)
  have e: "created_at (queued_job ''j1'' ''2024-01-01T10:00:01'')
       < created_at (queued_job ''j3'' ''2024-01-01T10:00:03'')"
    by (simp add: queued_job_def)
  have f: "claimed (run_log sample_config
                 [env_transcribe_fails, env_transcribe_fails, env_transcribe_fails]
                 world_three_queued)
       = [''j1'', ''j2''] @ job_id (queued_job ''j3'' ''2024-01-01T10:00:03'') # []"
    by code_simp
  note t = get_next_job_fifo [of world_three_queued sample_config
      "queued_job ''j1'' ''2024-01-01T10:00:01''" "queued_job ''j3'' ''2024-01-01T10:00:03''"
      "[env_transcribe_fails, env_transcribe_fails, env_transcribe_fails]"]
  from t a b c d e f
  have g: "job_id (queued_job ''j1'' ''2024-01-01T10:00:01'') \<in> set [''j1'', ''j2'']"
    by blast
  from t b c have h: "get_next_job sample_config world_three_queued \<noteq> None"
    by blast
  from a b c d e f g h show ?thesis by (intro conjI)
qed

section \<open>Decimal notation\<close>


























section \<open>Fields of a timestamp\<close>


lemma py_int_of_int [simp]: "py_int (of_int k) = k"
  by (simp add: py_int_def)










lemma format_timestamp_srt_eq: "format_timestamp_srt = format_srt_time"
  by (rule ext) (simp only: format_timestamp_srt_def format_srt_time_def)







section \<open>Subtitle texts\<close>






















section \<open>Round trip of a timestamp\<close>








section \<open>Jobs with the model large in the worker loop\<close>

lemma get_next_job_fields:
  assumes "get_next_job cfg w = Some job"
  shows "\<exists>row\<in>set (jobs w). status row = QUEUED \<and> job_id row = jd_id job
           \<and> jd_job_type job = job_type row
           \<and> jd_model job = (if model row \<noteq> [] then model row else WHISPER_MODEL cfg)"
proof -
  let ?q = "filter (\<lambda>j. status j = QUEUED) (jobs w)"
  obtain row rest where s: "sort_key created_at ?q = row # rest"
    using assms by (cases "sort_key created_at ?q") (simp_all add: get_next_job_def)
  have f: "job_id row = jd_id job" "jd_job_type job = job_type row"
      "jd_model job = (if model row \<noteq> [] then model row else WHISPER_MODEL cfg)"
    using assms by (auto simp: get_next_job_def s)
  have "set (row # rest) = set ?q"
    using set_sort [of created_at ?q] by (simp add: s)
  then have "row \<in> set ?q" by auto
  then have "row \<in> set (jobs w)" "status row = QUEUED" by simp_all
  then show ?thesis using f by blast
qed

lemma large_row_never_done:
  assumes "distinct (map job_id (jobs w))" and "j \<in> set (jobs w)"
    and "model j = ''large''"
    and "job_type j = ''file_upload'' \<or> job_type j = ''youtube_auto_ingest''"
  shows "DONE \<notin> set (statuses_of (job_id j) (run_log cfg envs w))"
  using assms
proof (induction envs arbitrary: w)
  case Nil
  show ?case by (simp add: statuses_of_def)
next
  case (Cons env envs)
  show ?case
  proof (cases "get_next_job cfg w")
    case None
    show ?thesis
      unfolding run_log_None [OF None] using Cons.IH [OF Cons.prems] .
  next
    case (Some job)
    let ?w' = "process_job cfg env job w"
    obtain row where row: "row \<in> set (jobs w)" "status row = QUEUED" "job_id row = jd_id job"
        "jd_job_type job = job_type row"
        "jd_model job = (if model row \<noteq> [] then model row else WHISPER_MODEL cfg)"
      using get_next_job_fields [OF Some] by blast
    have d': "distinct (map job_id (jobs ?w'))" using Cons.prems(1) by simp
    show ?thesis
    proof (cases "job_id j = jd_id job")
      case True
      have jr: "j = row"
        using distinct_job_id_eq [OF Cons.prems(1) Cons.prems(2) row(1)] True row(3) by simp
      have m: "jd_model job = ''large''" using row(5) jr Cons.prems(3) by simp
      have t: "jd_job_type job = ''file_upload'' \<or> jd_job_type job = ''youtube_auto_ingest''"
        using row(4) jr Cons.prems(4) by simp
      note pl = process_job_large [OF m t, of cfg env w]
      have rl: "run_log cfg (env # envs) w
                  = [(jd_id job, RUNNING), (jd_id job, FAILED)] @ run_log cfg envs ?w'"
        using run_log_Some [OF Some pl(1)] .
      have "job_id j \<in> set (map job_id (jobs w))" using Cons.prems(2) by simp
      then have "job_id j \<in> set (map job_id (jobs ?w'))" by (simp only: process_job_ids)
      then obtain j' where j': "j' \<in> set (jobs ?w')" "job_id j' = job_id j"
        using ex_job_with_id by meson
      then have "status j' = FAILED" using pl(2) True by simp
      then have "status j' \<noteq> QUEUED" by simp
      then have "statuses_of (job_id j') (run_log cfg envs ?w') = []"
        using statuses_of_run [OF d' j'(1)] by simp
      then have "statuses_of (job_id j) (run_log cfg (env # envs) w) = [RUNNING, FAILED]"
        using True j'(2) by (simp add: rl statuses_of_def)
      then show ?thesis by simp
    next
      case False
      obtain s where lg: "status_log ?w' = status_log w @ [(jd_id job, RUNNING), (jd_id job, s)]"
        using process_job_log [of cfg env job w] by blast
      have rl: "run_log cfg (env # envs) w
                  = [(jd_id job, RUNNING), (jd_id job, s)] @ run_log cfg envs ?w'"
        using run_log_Some [OF Some lg] .
      have m: "j \<in> set (jobs ?w')" using process_job_other [OF Cons.prems(2) False] .
      have "statuses_of (job_id j) (run_log cfg (env # envs) w)
              = statuses_of (job_id j) (run_log cfg envs ?w')"
        using False by (simp add: rl statuses_of_def)
      then show ?thesis using Cons.IH [OF d' m Cons.prems(3) Cons.prems(4)] by simp
    qed
  qed
qed

text \<open>
  C10: the model \<open>large\<close> is a member of \<open>ModelSize\<close> and is not among the valid models
  of the transcriber, whose constructor raises a \<open>TranscriberError\<close> for it; so every
  upload or auto-ingest job with this model that the worker processes is set to
  \<open>running\<close> and then to \<open>failed\<close>, whatever the engines answer; and over any number of
  iterations of the worker loop, no such job of a table with unique ids is set to \<open>done\<close>.
\<close>

theorem large_model_job_fails:
  assumes "jd_model job = ''large''"
    and "jd_job_type job = ''file_upload'' \<or> jd_job_type job = ''youtube_auto_ingest''"
  shows "''large'' \<in> set ModelSize
       \<and> ''large'' \<notin> VALID_MODELS
       \<and> (\<exists>m. Transcriber_init (jd_model job) = Inl (TranscriberError m))
       \<and> status_log (process_job cfg env job w)
           = status_log w @ [(jd_id job, RUNNING), (jd_id job, FAILED)]
       \<and> (\<forall>j\<in>set (jobs (process_job cfg env job w)).
             job_id j = jd_id job \<longrightarrow> status j = FAILED)
       \<and> (\<forall>j\<in>set (jobs w).
             distinct (map job_id (jobs w)) \<and> model j = ''large''
             \<and> (job_type j = ''file_upload'' \<or> job_type j = ''youtube_auto_ingest'')
             \<longrightarrow> DONE \<notin> set (statuses_of (job_id j) (run_log cfg envs w)))"
proof -
  have a: "''large'' \<in> set ModelSize" by (simp add: ModelSize_def)
  have b: "''large'' \<notin> VALID_MODELS" by (simp add: VALID_MODELS_def)
  have c: "\<exists>m. Transcriber_init (jd_model job) = Inl (TranscriberError m)"
    using b assms(1) by (simp add: Transcriber_init_def)
  note pl = process_job_large [OF assms, of cfg env w]
  have r: "\<forall>j\<in>set (jobs w).
             distinct (map job_id (jobs w)) \<and> model j = ''large''
             \<and> (job_type j = ''file_upload'' \<or> job_type j = ''youtube_auto_ingest'')
             \<longrightarrow> DONE \<notin> set (statuses_of (job_id j) (run_log cfg envs w))"
    using large_row_never_done by blast
  from a b c pl r show ?thesis by (intro conjI)
qed

theorem large_model_job_fails_witness:
  "jd_model (upload_job\<lparr>jd_model := ''large''\<rparr>) = ''large''
   \<and> jd_job_type (upload_job\<lparr>jd_model := ''large''\<rparr>) = ''file_upload''
   \<and> get_next_job sample_config world_with_large_upload
       = Some (upload_job\<lparr>jd_model := ''large''\<rparr>)
   \<and> status_log
        (process_job sample_config env_transcribe_fails (upload_job\<lparr>jd_model := ''large''\<rparr>)
           world_with_large_upload)
       = [(''j1'', RUNNING), (''j1'', FAILED)]
   \<and> (queued_job ''j1'' ''2024-01-01T10:00:01'')\<lparr>model := ''large''\<rparr>
       \<in> set (jobs world_with_large_upload)
   \<and> distinct (map job_id (jobs world_with_large_upload))
   \<and> DONE \<notin> set (statuses_of ''j1''
        (run_log sample_config [env_transcribe_fails, env_transcribe_fails]
           world_with_large_upload))"
proof -
  have a: "jd_model (upload_job\<lparr>jd_model := ''large''\<rparr>) = ''large''" by simp
  have b: "jd_job_type (upload_job\<lparr>jd_model := ''large''\<rparr>) = ''file_upload''"
    by (simp add: upload_job_def)
  have g: "get_next_job sample_config world_with_large_upload
       = Some (upload_job\<lparr>jd_model := ''large''\<rparr>)"
    by (simp add: get_next_job_def world_with_large_upload_def queued_job_def upload_job_def)
  have m: "(queued_job ''j1'' ''2024-01-01T10:00:01'')\<lparr>model := ''large''\<rparr>
       \<in> set (jobs world_with_large_upload)"
    by (simp add: world_with_large_upload_def)
  have d: "distinct (map job_id (jobs world_with_large_upload))"
    by (simp add: world_with_large_upload_def)
  have f: "model ((queued_job ''j1'' ''2024-01-01T10:00:01'')\<lparr>model := ''large''\<rparr>) = ''large''
     \<and> job_type ((queued_job ''j1'' ''2024-01-01T10:00:01'')\<lparr>model := ''large''\<rparr>)
         = ''file_upload''
     \<and> job_id ((queued_job ''j1'' ''2024-01-01T10:00:01'')\<lparr>model := ''large''\<rparr>) = ''j1''"
    by (simp add: queued_job_def)
  note t = large_model_job_fails [OF a disjI1 [OF b], of sample_config env_transcribe_fails
      world_with_large_upload "[env_transcribe_fails, env_transcribe_fails]"]
  from t have l: "status_log
        (process_job sample_config env_transcribe_fails (upload_job\<lparr>jd_model := ''large''\<rparr>)
           world_with_large_upload)
       = [(''j1'', RUNNING), (''j1'', FAILED)]"
    by (simp add: upload_job_def world_with_large_upload_def)
  from t m d f have r: "DONE \<notin> set (statuses_of ''j1''
        (run_log sample_config [env_transcribe_fails, env_transcribe_fails]
           world_with_large_upload))"
    by metis
  from a b g l m d r show ?thesis by (intro conjI)
qed

end
